theory Spec2Isabelle
  imports Main "HOL-Library.Sublist"
begin

section \<open>Package egaws: session bootstrap and JSON secrets\<close>

text \<open>
  A shallow embedding of \<^verbatim>\<open>src/pkg/egaws/eqaws.go\<close>: the constructor
  \<^verbatim>\<open>NewEGAwsClient\<close> and the method \<^verbatim>\<open>GetLatestJsonSecretValue\<close>.

  The package calls the AWS SDK, \<^verbatim>\<open>encoding/json\<close> and a logger. None of them
  is code of this package, so the model takes them as a record of functions (\<open>sdk\<close>)
  and writes every call it makes into a trace of events, in the order of the source.
  A call of the SDK is a function of its arguments: what the network answers is the
  choice of the record. The logger is the trace itself (\<open>Debug\<close> events); \<^verbatim>\<open>args\<close>,
  \<^verbatim>\<open>args.Logger\<close>, the receiver \<^verbatim>\<open>c\<close> and the outputs that the SDK returns
  beside a nil error are non-nil, by the contracts of the callers and of the SDK, and are
  values in the model. The pointers that the source dereferences inside an output it was
  given are \<open>option\<close>s, and a nil dereference is the outcome \<open>Panic\<close>. An SDK call
  answers with an error or a value: a call that panics inside the SDK, as one that signs a
  request with a panicking credentials provider would, is not among the answers, and the
  theorems about a bootstrap are about the runs whose SDK calls return.
\<close>

subsection \<open>Go values\<close>

type_synonym bytes = string
  \<comment> \<open>\<^verbatim>\<open>[]byte\<close>; a Go string is a byte sequence too, and \<^verbatim>\<open>[]byte(s)\<close> copies it\<close>

type_synonym go_context = nat
  \<comment> \<open>\<^verbatim>\<open>context.Context\<close>, handed on to every SDK call\<close>

type_synonym time = int
  \<comment> \<open>\<^verbatim>\<open>time.Time\<close> as an instant on a line\<close>

type_synonym http_client = nat
  \<comment> \<open>the identity of a \<^verbatim>\<open>*http.Client\<close>\<close>

text \<open>
  Errors. \<open>External\<close> is an error made outside this package. \<open>Errorf\<close> is
  \<^verbatim>\<open>fmt.Errorf(format, err)\<close> with a format that ends in \<^verbatim>\<open>%w\<close>; \<open>eris_Wrap\<close> and
  \<open>eris_New\<close> are \<^verbatim>\<open>eris.Wrap(err, msg)\<close> and \<^verbatim>\<open>eris.New(msg)\<close>.
\<close>

datatype error =
    External string
  | Errorf string error
  | eris_Wrap error string
  | eris_New string


text \<open>The outcome of a Go function that may dereference a nil pointer.\<close>

datatype 'a go = Panic | Return 'a

subsection \<open>SDK types\<close>

text \<open>\<^verbatim>\<open>sts/types.Credentials\<close>: every field is a pointer.\<close>

record sts_Credentials =
  AccessKeyId :: "string option"
  SecretAccessKey :: "string option"
  SessionToken :: "string option"
  Expiration :: "time option"

text \<open>\<^verbatim>\<open>sts.AssumeRoleInput\<close> and \<^verbatim>\<open>sts.AssumeRoleOutput\<close>, the fields this package touches.\<close>

record AssumeRoleInput =
  RoleArn :: "string option"

record AssumeRoleOutput =
  Credentials :: "sts_Credentials option"

text \<open>\<^verbatim>\<open>aws.Credentials\<close>, by value.\<close>

record aws_Credentials =
  AccessKeyID :: string
  SecretAccessKey :: string
  SessionToken :: string
  Source :: string
  CanExpire :: bool
  Expires :: time

text \<open>
  A credentials provider of a configuration: the provider that
  \<^verbatim>\<open>config.LoadDefaultConfig\<close> resolved from the ambient chain, or
  \<^verbatim>\<open>aws.NewCredentialsCache(aws.CredentialsProviderFunc(func ...))\<close>, where the only function
  literal of the package is the one of lines 78 to 85, a closure over \<^verbatim>\<open>result\<close>.
\<close>

datatype provider_func = CredentialsProviderFunc AssumeRoleOutput

datatype credentials_provider =
    DefaultChain nat
  | NewCredentialsCache provider_func

text \<open>
  \<^verbatim>\<open>aws.Config\<close>: the field the package assigns, and all the others as one value.
\<close>

record aws_Config =
  Credentials :: credentials_provider
  Resolved :: nat

text \<open>A client is the configuration it was built from.\<close>

datatype sts_Client = sts_NewFromConfig aws_Config

datatype secretsmanager_Client = secretsmanager_NewFromConfig aws_Config

record GetCallerIdentityOutput =
  Account :: "string option"
  Arn :: "string option"
  UserId :: "string option"

record GetSecretValueInput =
  SecretId :: "string option"

text \<open>
  \<^verbatim>\<open>secretsmanager.GetSecretValueOutput\<close>: \<^verbatim>\<open>SecretString\<close> is a \<^verbatim>\<open>*string\<close>,
  \<^verbatim>\<open>SecretBinary\<close> a \<^verbatim>\<open>[]byte\<close>; \<open>None\<close> is nil.
\<close>

record GetSecretValueOutput =
  SecretString :: "string option"
  SecretBinary :: "bytes option"

text \<open>The options of \<^verbatim>\<open>config.LoadDefaultConfig\<close> that the package builds.\<close>

datatype load_option =
    WithRegion string
  | WithRetryMaxAttempts int
  | WithRetryMode string
  | WithHTTPClient http_client

subsection \<open>Collaborators and the trace\<close>

datatype log_arg = LStr string | LInt int | LIdentity GetCallerIdentityOutput

datatype event =
    Debug "log_arg list"
  | LoadDefaultConfig go_context "load_option list"
  | STSNewFromConfig aws_Config
  | AssumeRole sts_Client go_context AssumeRoleInput
  | GetCallerIdentity sts_Client go_context
  | SecretsNewFromConfig aws_Config
  | GetSecretValue secretsmanager_Client go_context GetSecretValueInput
  | Unmarshal bytes

text \<open>
  \<open>json_Unmarshal\<close> gets the bytes and the destination and gives the error, if any, and
  the destination as the call leaves it.
\<close>

record 'd sdk =
  config_LoadDefaultConfig :: "go_context \<Rightarrow> load_option list \<Rightarrow> error + aws_Config"
  sts_AssumeRole :: "sts_Client \<Rightarrow> go_context \<Rightarrow> AssumeRoleInput \<Rightarrow> error + AssumeRoleOutput"
  sts_GetCallerIdentity :: "sts_Client \<Rightarrow> go_context \<Rightarrow> error + GetCallerIdentityOutput"
  secretsmanager_GetSecretValue ::
    "secretsmanager_Client \<Rightarrow> go_context \<Rightarrow> GetSecretValueInput \<Rightarrow> error + GetSecretValueOutput"
  json_Unmarshal :: "bytes \<Rightarrow> 'd \<Rightarrow> error option \<times> 'd"

subsection \<open>The package\<close>

record EGAwsClient =
  cfg :: aws_Config
  stsClient :: sts_Client
  secretsClient :: secretsmanager_Client

record NewEGAwsClientArgs =
  Region :: string
  AssumeRoleArn :: string
  RetryMaxAttempts :: int
  RetryMode :: string
  HTTPClient :: "http_client option"

text \<open>
  \<^verbatim>\<open>GetLatestJsonSecretValue\<close>, lines 135 to 158. The result is the trace, the returned
  error (\<open>None\<close> is nil) and the destination \<^verbatim>\<open>result\<close> after the call.
\<close>

definition GetLatestJsonSecretValue ::
  "'d sdk \<Rightarrow> EGAwsClient \<Rightarrow> go_context \<Rightarrow> string \<Rightarrow> 'd \<Rightarrow> event list \<times> error option \<times> 'd"
where
  "GetLatestJsonSecretValue env c ctx secretNameOrArn result =
    (let input = \<lparr>SecretId = Some secretNameOrArn\<rparr>;
         t1 = [GetSecretValue (secretsClient c) ctx input]
     in case secretsmanager_GetSecretValue env (secretsClient c) ctx input of
          Inl err \<Rightarrow> (t1, Some (eris_Wrap err ''failed to get secret value''), result)
        | Inr output \<Rightarrow>
            (case (case SecretString output of
                     Some s \<Rightarrow> Inr s
                   | None \<Rightarrow>
                       (case SecretBinary output of
                          Some b \<Rightarrow> Inr b
                        | None \<Rightarrow> Inl (eris_New ''secret found but value is empty''))) of
               Inl e \<Rightarrow> (t1, Some e, result)
             | Inr byteValue \<Rightarrow>
                 (case json_Unmarshal env byteValue result of
                    (Some err, result') \<Rightarrow>
                      (t1 @ [Unmarshal byteValue],
                       Some (eris_Wrap err ''failed to unmarshal byte value''), result')
                  | (None, result') \<Rightarrow> (t1 @ [Unmarshal byteValue], None, result'))))"

text \<open>
  The function literal of lines 78 to 85, applied to a context. It reads four pointers of
  \<^verbatim>\<open>result.Credentials\<close>, itself a pointer; the fields of \<^verbatim>\<open>aws.Credentials\<close> that the
  literal leaves out are Go's zero values. The error it returns is nil.
\<close>

fun Retrieve :: "provider_func \<Rightarrow> go_context \<Rightarrow> (aws_Credentials \<times> error option) go" where
  "Retrieve (CredentialsProviderFunc result) ctx =
    (case AssumeRoleOutput.Credentials result of
       None \<Rightarrow> Panic
     | Some c \<Rightarrow>
        (case AccessKeyId c of
           None \<Rightarrow> Panic
         | Some accessKeyId \<Rightarrow>
            (case sts_Credentials.SecretAccessKey c of
               None \<Rightarrow> Panic
             | Some secretAccessKey \<Rightarrow>
                (case sts_Credentials.SessionToken c of
                   None \<Rightarrow> Panic
                 | Some sessionToken \<Rightarrow>
                    (case Expiration c of
                       None \<Rightarrow> Panic
                     | Some expiration \<Rightarrow>
                        Return (\<lparr>AccessKeyID = accessKeyId,
                                 SecretAccessKey = secretAccessKey,
                                 SessionToken = sessionToken,
                                 Source = [],
                                 CanExpire = False,
                                 Expires = expiration\<rparr>, None))))))"

text \<open>
  Lines 40 to 60: the options for \<^verbatim>\<open>config.LoadDefaultConfig\<close> and the logger calls made
  while they are collected.
\<close>

definition buildConfigOpts :: "NewEGAwsClientArgs \<Rightarrow> load_option list \<times> event list" where
  "buildConfigOpts args =
    (let configOpts = [WithRegion (Region args)];
         t = [];
         (configOpts, t) =
           (if 0 < RetryMaxAttempts args
            then (configOpts @ [WithRetryMaxAttempts (RetryMaxAttempts args)],
                  t @ [Debug [LStr ''configured retry max attempts'', LStr ''maxAttempts'',
                              LInt (RetryMaxAttempts args)]])
            else (configOpts, t));
         (configOpts, t) =
           (if RetryMode args \<noteq> []
            then (configOpts @ [WithRetryMode (RetryMode args)],
                  t @ [Debug [LStr ''configured retry mode'', LStr ''mode'', LStr (RetryMode args)]])
            else (configOpts, t));
         (configOpts, t) =
           (case HTTPClient args of
              Some h \<Rightarrow> (configOpts @ [WithHTTPClient h], t @ [Debug [LStr ''using custom HTTP client'']])
            | None \<Rightarrow> (configOpts, t))
     in (configOpts, t))"

text \<open>
  \<^verbatim>\<open>NewEGAwsClient\<close>, lines 39 to 103. The result is the trace and either the returned
  error or the client. The \<^verbatim>\<open>if\<close> of lines 70 to 88 gives the configuration and the
  identity client that the lines after it use, or the error it returns with.
\<close>

definition NewEGAwsClient ::
  "'d sdk \<Rightarrow> go_context \<Rightarrow> NewEGAwsClientArgs \<Rightarrow> event list \<times> (error + EGAwsClient)"
where
  "NewEGAwsClient env ctx args =
    (let (configOpts, t) = buildConfigOpts args;
         t = t @ [LoadDefaultConfig ctx configOpts]
     in case config_LoadDefaultConfig env ctx configOpts of
          Inl err \<Rightarrow> (t, Inl (Errorf ''failed to load AWS config: %w'' err))
        | Inr cfg0 \<Rightarrow>
           (let t = t @ [Debug [LStr ''loaded AWS config from default credentials chain''],
                         STSNewFromConfig cfg0];
                stsClient0 = sts_NewFromConfig cfg0
            in case
                 (if AssumeRoleArn args \<noteq> [] then
                    (let input = \<lparr>RoleArn = Some (AssumeRoleArn args)\<rparr>;
                         t = t @ [Debug [LStr ''AssumeRoleArn is set; assuming role'', LStr ''roleArn'',
                                         LStr (AssumeRoleArn args)],
                                  AssumeRole stsClient0 ctx input]
                     in case sts_AssumeRole env stsClient0 ctx input of
                          Inl err \<Rightarrow> Inl (t, Errorf ''failed to assume role: %w'' err)
                        | Inr result \<Rightarrow>
                           (let cfg1 = cfg0\<lparr>Credentials :=
                                         NewCredentialsCache (CredentialsProviderFunc result)\<rparr>
                            in Inr (t @ [Debug [LStr ''assume role successful'', LStr ''roleArn'',
                                               LStr (AssumeRoleArn args)],
                                         STSNewFromConfig cfg1],
                                    cfg1, sts_NewFromConfig cfg1)))
                  else Inr (t, cfg0, stsClient0))
               of
                 Inl (t, e) \<Rightarrow> (t, Inl e)
               | Inr (t, cfg1, stsClient1) \<Rightarrow>
                  (let t = t @ [GetCallerIdentity stsClient1 ctx]
                   in case sts_GetCallerIdentity env stsClient1 ctx of
                        Inl err \<Rightarrow> (t, Inl (Errorf ''failed to get caller identity: %w'' err))
                      | Inr ident \<Rightarrow>
                          (t @ [Debug [LStr ''caller identity'', LStr ''identity'', LIdentity ident],
                                SecretsNewFromConfig cfg1],
                           Inr \<lparr>cfg = cfg1, stsClient = stsClient1,
                                secretsClient = secretsmanager_NewFromConfig cfg1\<rparr>))))"

subsection \<open>The credentials cache\<close>



subsection \<open>Reading a trace\<close>

text \<open>The stage of a bootstrap or of a secret read that an event belongs to.\<close>

datatype stage = Resolve | Provision | Verify | BuildSecretStore | Fetch | Decode

fun stage_of :: "event \<Rightarrow> stage option" where
  "stage_of (LoadDefaultConfig ctx opts) = Some Resolve"
| "stage_of (AssumeRole c ctx i) = Some Provision"
| "stage_of (GetCallerIdentity c ctx) = Some Verify"
| "stage_of (SecretsNewFromConfig cf) = Some BuildSecretStore"
| "stage_of (GetSecretValue c ctx i) = Some Fetch"
| "stage_of (Unmarshal bs) = Some Decode"
| "stage_of (Debug as) = None"
| "stage_of (STSNewFromConfig cf) = None"

definition stages :: "event list \<Rightarrow> stage list" where
  "stages t = List.map_filter stage_of t"

text \<open>The option lists that a trace hands to \<^verbatim>\<open>config.LoadDefaultConfig\<close>.\<close>

fun load_calls :: "event list \<Rightarrow> load_option list list" where
  "load_calls [] = []"
| "load_calls (LoadDefaultConfig ctx opts # t) = opts # load_calls t"
| "load_calls (e # t) = load_calls t"

text \<open>The retry caps that an option list asks for.\<close>

fun retry_caps :: "load_option list \<Rightarrow> int list" where
  "retry_caps [] = []"
| "retry_caps (WithRetryMaxAttempts n # opts) = n # retry_caps opts"
| "retry_caps (opt # opts) = retry_caps opts"

text \<open>
  The error that the SDK answers to the call an event records, if it answers one.
  (\<open>Unmarshal\<close> depends on the destination and is not read here.)
\<close>

fun call_error :: "'d sdk \<Rightarrow> event \<Rightarrow> error option" where
  "call_error env (LoadDefaultConfig ctx opts) =
     (case config_LoadDefaultConfig env ctx opts of Inl e \<Rightarrow> Some e | Inr v \<Rightarrow> None)"
| "call_error env (AssumeRole c ctx i) =
     (case sts_AssumeRole env c ctx i of Inl e \<Rightarrow> Some e | Inr v \<Rightarrow> None)"
| "call_error env (GetCallerIdentity c ctx) =
     (case sts_GetCallerIdentity env c ctx of Inl e \<Rightarrow> Some e | Inr v \<Rightarrow> None)"
| "call_error env (GetSecretValue c ctx i) =
     (case secretsmanager_GetSecretValue env c ctx i of Inl e \<Rightarrow> Some e | Inr v \<Rightarrow> None)"
| "call_error env (Debug as) = None"
| "call_error env (STSNewFromConfig cf) = None"
| "call_error env (SecretsNewFromConfig cf) = None"
| "call_error env (Unmarshal bs) = None"

text \<open>
  Nothing follows a call that the SDK answers with an error: a failing call, if the trace has
  one, is its last event.
\<close>

fun stops_at_first_error :: "'d sdk \<Rightarrow> event list \<Rightarrow> bool" where
  "stops_at_first_error env [] = True"
| "stops_at_first_error env (ev # t) =
     (if call_error env ev \<noteq> None then t = [] else stops_at_first_error env t)"



text \<open>
  The part of the contract of \<^verbatim>\<open>json.Unmarshal\<close> that Go documents for malformed
  input: the bytes are checked for well-formedness before anything is decoded, so input
  that is not a valid document is answered with an error and the destination is not
  written. \<open>valid\<close> says which byte sequences are valid documents.
\<close>

definition rejects_invalid :: "(bytes \<Rightarrow> bool) \<Rightarrow> 'd sdk \<Rightarrow> bool" where
  "rejects_invalid valid env =
     (\<forall>bs d. \<not> valid bs \<longrightarrow> (\<exists>e. json_Unmarshal env bs d = (Some e, d)))"

subsection \<open>An SDK to run the model on\<close>

text \<open>
  A fixed SDK for the concrete runs below. Loading fails in context 2; the role
  \<^verbatim>\<open>arn:role/ok\<close> can be assumed and no other; the identity call fails in context 1; the
  secret store holds four secrets; the decoder reads one decimal digit into a number and
  rejects everything else, leaving the destination as it was.
\<close>

definition example_cfg :: aws_Config where
  "example_cfg = \<lparr>Credentials = DefaultChain 0, Resolved = 0\<rparr>"

definition example_result :: AssumeRoleOutput where
  "example_result =
     \<lparr>AssumeRoleOutput.Credentials =
        Some \<lparr>AccessKeyId = Some ''ASIA'', sts_Credentials.SecretAccessKey = Some ''key'',
              sts_Credentials.SessionToken = Some ''token'', Expiration = Some 3600\<rparr>\<rparr>"

definition example_sdk :: "nat sdk" where
  "example_sdk =
     \<lparr>config_LoadDefaultConfig =
        (\<lambda>ctx opts. if ctx = 2 then Inl (External ''no region'') else Inr example_cfg),
      sts_AssumeRole =
        (\<lambda>c ctx i. if RoleArn i = Some ''arn:role/ok'' then Inr example_result
                    else Inl (External ''AccessDenied'')),
      sts_GetCallerIdentity =
        (\<lambda>c ctx. if ctx = 1 then Inl (External ''ExpiredToken'')
                  else Inr \<lparr>Account = Some ''1'', Arn = Some ''arn:user'', UserId = Some ''u''\<rparr>),
      secretsmanager_GetSecretValue =
        (\<lambda>c ctx i.
           if SecretId i = Some ''digit'' then Inr \<lparr>SecretString = Some ''7'', SecretBinary = None\<rparr>
           else if SecretId i = Some ''blank''
             then Inr \<lparr>SecretString = Some [], SecretBinary = Some ''7''\<rparr>
           else if SecretId i = Some ''binary''
             then Inr \<lparr>SecretString = None, SecretBinary = Some ''7''\<rparr>
           else if SecretId i = Some ''nothing''
             then Inr \<lparr>SecretString = None, SecretBinary = None\<rparr>
           else Inl (External ''ResourceNotFoundException'')),
      json_Unmarshal =
        (\<lambda>bs d. if bs = ''7'' then (None, 7)
                 else (Some (External ''invalid character''), d))\<rparr>"

definition example_args :: NewEGAwsClientArgs where
  "example_args =
     \<lparr>Region = ''eu-west-1'', AssumeRoleArn = ''arn:role/ok'', RetryMaxAttempts = 5,
      RetryMode = [], HTTPClient = None\<rparr>"

definition example_client :: EGAwsClient where
  "example_client =
     \<lparr>cfg = example_cfg, stsClient = sts_NewFromConfig example_cfg,
      secretsClient = secretsmanager_NewFromConfig example_cfg\<rparr>"

section \<open>Reading a secret\<close>

text \<open>
  Once the store has answered, the bytes that reach the decoder are the text field when it
  is there and the binary field otherwise, and the call returns what the decoder returns,
  its error wrapped.
\<close>

lemma decode_result:
  "secretsmanager_GetSecretValue env (secretsClient c) ctx \<lparr>SecretId = Some n\<rparr> = Inr output \<Longrightarrow>
   SecretString output = Some s \<or> SecretString output = None \<and> SecretBinary output = Some s \<Longrightarrow>
   GetLatestJsonSecretValue env c ctx n d =
     ([GetSecretValue (secretsClient c) ctx \<lparr>SecretId = Some n\<rparr>, Unmarshal s],
      map_option (\<lambda>e. eris_Wrap e ''failed to unmarshal byte value'') (fst (json_Unmarshal env s d)),
      snd (json_Unmarshal env s d))"
  by (auto simp: GetLatestJsonSecretValue_def Let_def split: prod.splits option.splits)



text \<open>
  C4. Let the decoder reject malformed input the way \<^verbatim>\<open>json.Unmarshal\<close> does
  (\<open>rejects_invalid\<close>). For every payload whose selected bytes are not a valid document,
  \<^verbatim>\<open>GetLatestJsonSecretValue\<close> returns the decoder's error wrapped as "failed to
  unmarshal byte value", the destination after the call is the destination before it, and
  the decoder has been called once, on the selected bytes.
\<close>

theorem C4_decode_error_frame:
  assumes "rejects_invalid valid env"
    and "secretsmanager_GetSecretValue env (secretsClient c) ctx \<lparr>SecretId = Some n\<rparr> = Inr output"
    and "SecretString output = Some bs \<or> SecretString output = None \<and> SecretBinary output = Some bs"
    and "\<not> valid bs"
  shows "\<exists>e. fst (json_Unmarshal env bs d) = Some e \<and>
             GetLatestJsonSecretValue env c ctx n d =
               ([GetSecretValue (secretsClient c) ctx \<lparr>SecretId = Some n\<rparr>, Unmarshal bs],
                Some (eris_Wrap e ''failed to unmarshal byte value''), d)"
proof -
  from assms(1,4) obtain e where e: "json_Unmarshal env bs d = (Some e, d)"
    unfolding rejects_invalid_def by blast
  show ?thesis
    using decode_result [OF assms(2,3), of d] e by simp
qed

theorem C4_witness:
  "rejects_invalid (\<lambda>bs. bs = ''7'') example_sdk \<and>
   GetLatestJsonSecretValue example_sdk example_client 0 ''blank'' (3::nat) =
     ([GetSecretValue (secretsClient example_client) 0 \<lparr>SecretId = Some ''blank''\<rparr>, Unmarshal []],
      Some (eris_Wrap (External ''invalid character'') ''failed to unmarshal byte value''), 3)"
proof -
  have r: "rejects_invalid (\<lambda>bs. bs = ''7'') example_sdk"
    by (simp add: rejects_invalid_def example_sdk_def)
  have blank: "secretsmanager_GetSecretValue example_sdk (secretsClient example_client) 0
      \<lparr>SecretId = Some ''blank''\<rparr> = Inr \<lparr>SecretString = Some [], SecretBinary = Some ''7''\<rparr>"
    by (simp add: example_sdk_def)
  have s: "SecretString \<lparr>SecretString = Some [], SecretBinary = Some ''7''\<rparr> = Some [] \<or>
      SecretString \<lparr>SecretString = Some [], SecretBinary = Some ''7''\<rparr> = None \<and>
      SecretBinary \<lparr>SecretString = Some [], SecretBinary = Some ''7''\<rparr> = Some []"
    by simp
  have v: "\<not> ([] :: bytes) = ''7''" by simp
  have u: "json_Unmarshal example_sdk [] (3::nat) = (Some (External ''invalid character''), 3)"
    by (simp add: example_sdk_def)
  show ?thesis
    using r C4_decode_error_frame [OF r blank s v, where d = 3] u
    by simp
qed

text \<open>
  C9. For a stored secret whose text field is present and empty, whatever the binary
  field and the destination are, the empty byte sequence is what is decoded, and the call
  never returns "secret found but value is empty"; when the decoder rejects empty input,
  as \<^verbatim>\<open>json.Unmarshal\<close> does, the call returns that rejection wrapped as "failed to
  unmarshal byte value".
\<close>

theorem C9_blank_text:
  assumes "secretsmanager_GetSecretValue env (secretsClient c) ctx \<lparr>SecretId = Some n\<rparr> = Inr output"
    and "SecretString output = Some []"
  shows "fst (GetLatestJsonSecretValue env c ctx n d) =
           [GetSecretValue (secretsClient c) ctx \<lparr>SecretId = Some n\<rparr>, Unmarshal []] \<and>
         fst (snd (GetLatestJsonSecretValue env c ctx n d)) \<noteq>
           Some (eris_New ''secret found but value is empty'') \<and>
         (\<forall>e. fst (json_Unmarshal env [] d) = Some e \<longrightarrow>
            fst (snd (GetLatestJsonSecretValue env c ctx n d)) =
              Some (eris_Wrap e ''failed to unmarshal byte value''))"
  using decode_result [OF assms(1), of "[]" d] assms(2)
  by (cases "fst (json_Unmarshal env [] d)") auto

theorem C9_witness:
  "fst (GetLatestJsonSecretValue example_sdk example_client 0 ''blank'' (3::nat)) =
     [GetSecretValue (secretsClient example_client) 0 \<lparr>SecretId = Some ''blank''\<rparr>, Unmarshal []] \<and>
   fst (snd (GetLatestJsonSecretValue example_sdk example_client 0 ''blank'' (3::nat))) =
     Some (eris_Wrap (External ''invalid character'') ''failed to unmarshal byte value'')"
proof -
  have blank: "secretsmanager_GetSecretValue example_sdk (secretsClient example_client) 0
      \<lparr>SecretId = Some ''blank''\<rparr> = Inr \<lparr>SecretString = Some [], SecretBinary = Some ''7''\<rparr>"
    by (simp add: example_sdk_def)
  have s: "SecretString \<lparr>SecretString = Some [], SecretBinary = Some ''7''\<rparr> = Some []"
    by simp
  have u: "json_Unmarshal example_sdk [] (3::nat) = (Some (External ''invalid character''), 3)"
    by (simp add: example_sdk_def)
  show ?thesis
    using C9_blank_text [OF blank s, where d = 3] u
    by simp
qed

section \<open>Bootstrap\<close>

subsection \<open>Reading the trace of a bootstrap\<close>

lemma stages_Cons: "stages (ev # t) = (case stage_of ev of None \<Rightarrow> stages t | Some s \<Rightarrow> s # stages t)"
  by (simp add: stages_def List.map_filter_def split: option.splits)

lemma stages_Nil: "stages [] = []"
  by (simp add: stages_def List.map_filter_def)

lemma opts_log_debug: "set (snd (buildConfigOpts args)) \<subseteq> range Debug"
  by (auto simp: buildConfigOpts_def Let_def split: if_splits option.splits)

lemma stages_debug: "set t \<subseteq> range Debug \<Longrightarrow> stages (t @ u) = stages u"
  by (induction t) (auto simp: stages_Cons)

lemma stops_debug:
  "set t \<subseteq> range Debug \<Longrightarrow> stops_at_first_error env (t @ u) = stops_at_first_error env u"
  by (induction t) auto

lemma load_calls_debug: "set t \<subseteq> range Debug \<Longrightarrow> load_calls (t @ u) = load_calls u"
  by (induction t) auto

subsection \<open>The runs of a bootstrap\<close>

text \<open>
  A bootstrap has one run for each answer of the SDK: loading fails; the role is asked for
  and refused; the role is assumed; no role is asked for. In the last two the identity call
  decides between the error and the client.
\<close>

lemma boot_load_error:
  "config_LoadDefaultConfig env ctx (fst (buildConfigOpts args)) = Inl e \<Longrightarrow>
   NewEGAwsClient env ctx args =
     (snd (buildConfigOpts args) @ [LoadDefaultConfig ctx (fst (buildConfigOpts args))],
      Inl (Errorf ''failed to load AWS config: %w'' e))"
  by (simp add: NewEGAwsClient_def split_beta Let_def)



lemma boot_ambient:
  "config_LoadDefaultConfig env ctx (fst (buildConfigOpts args)) = Inr cfg0 \<Longrightarrow>
   AssumeRoleArn args = [] \<Longrightarrow>
   NewEGAwsClient env ctx args =
     (snd (buildConfigOpts args) @
      [LoadDefaultConfig ctx (fst (buildConfigOpts args)),
       Debug [LStr ''loaded AWS config from default credentials chain''],
       STSNewFromConfig cfg0,
       GetCallerIdentity (sts_NewFromConfig cfg0) ctx] @
      (case sts_GetCallerIdentity env (sts_NewFromConfig cfg0) ctx of
         Inl e \<Rightarrow> []
       | Inr ident \<Rightarrow> [Debug [LStr ''caller identity'', LStr ''identity'', LIdentity ident],
                         SecretsNewFromConfig cfg0]),
      case sts_GetCallerIdentity env (sts_NewFromConfig cfg0) ctx of
        Inl e \<Rightarrow> Inl (Errorf ''failed to get caller identity: %w'' e)
      | Inr ident \<Rightarrow> Inr \<lparr>cfg = cfg0, stsClient = sts_NewFromConfig cfg0,
                           secretsClient = secretsmanager_NewFromConfig cfg0\<rparr>)"
  by (simp add: NewEGAwsClient_def split_beta Let_def split: sum.splits)


lemmas debug_prefix =
  stages_debug [OF opts_log_debug] stops_debug [OF opts_log_debug]
  load_calls_debug [OF opts_log_debug]


subsection \<open>Order of the stages\<close>





lemma example_load: "config_LoadDefaultConfig example_sdk ctx opts = (if ctx = 2 then Inl (External ''no region'') else Inr example_cfg)"
  by (simp add: example_sdk_def)


lemma example_identity:
  "sts_GetCallerIdentity example_sdk c ctx =
     (if ctx = 1 then Inl (External ''ExpiredToken'')
      else Inr \<lparr>Account = Some ''1'', Arn = Some ''arn:user'', UserId = Some ''u''\<rparr>)"
  by (simp add: example_sdk_def)


subsection \<open>No role to assume\<close>

text \<open>
  C5. When \<^verbatim>\<open>AssumeRoleArn\<close> is empty, bootstrap makes no role-assumption call, and a
  client it returns holds the configuration exactly as \<^verbatim>\<open>config.LoadDefaultConfig\<close>
  returned it (its credentials provider included, which is not replaced), the identity
  client built from that configuration, on which the identity call was made, and the
  secret-store client built from it.
\<close>

theorem C5_no_role_assumption:
  fixes env :: "'d sdk" and ctx :: go_context and args :: NewEGAwsClientArgs
  defines "t \<equiv> fst (NewEGAwsClient env ctx args)"
    and "r \<equiv> snd (NewEGAwsClient env ctx args)"
  assumes "AssumeRoleArn args = []"
  shows "Provision \<notin> set (stages t) \<and>
         (\<forall>h. r = Inr h \<longrightarrow>
            config_LoadDefaultConfig env ctx (fst (buildConfigOpts args)) = Inr (cfg h) \<and>
            stsClient h = sts_NewFromConfig (cfg h) \<and>
            secretsClient h = secretsmanager_NewFromConfig (cfg h) \<and>
            GetCallerIdentity (stsClient h) ctx \<in> set t)"
proof (cases "config_LoadDefaultConfig env ctx (fst (buildConfigOpts args))")
  case (Inl e)
  show ?thesis
    unfolding t_def r_def boot_load_error [OF Inl]
    by (simp add: debug_prefix stages_Cons stages_Nil)
next
  case (Inr cfg0)
  show ?thesis
    unfolding t_def r_def boot_ambient [OF Inr assms(3)]
    by (auto simp: debug_prefix stages_Cons stages_Nil Inr split: sum.splits)
qed

theorem C5_witness:
  "Provision \<notin> set (stages (fst (NewEGAwsClient example_sdk 0 (example_args\<lparr>AssumeRoleArn := []\<rparr>)))) \<and>
   snd (NewEGAwsClient example_sdk 0 (example_args\<lparr>AssumeRoleArn := []\<rparr>)) = Inr example_client \<and>
   config_LoadDefaultConfig example_sdk 0 (fst (buildConfigOpts (example_args\<lparr>AssumeRoleArn := []\<rparr>))) =
     Inr (cfg example_client)"
proof -
  have arn: "AssumeRoleArn (example_args\<lparr>AssumeRoleArn := []\<rparr>) = []"
    by simp
  have load: "config_LoadDefaultConfig example_sdk 0
      (fst (buildConfigOpts (example_args\<lparr>AssumeRoleArn := []\<rparr>))) = Inr example_cfg"
    by (simp add: example_load)
  have r: "snd (NewEGAwsClient example_sdk 0 (example_args\<lparr>AssumeRoleArn := []\<rparr>)) = Inr example_client"
    unfolding boot_ambient [OF load arn] by (simp add: example_identity example_client_def)
  show ?thesis
    using C5_no_role_assumption [OF arn, where env = example_sdk and ctx = 0] r
    by simp
qed

subsection \<open>Retry attempts\<close>



text \<open>Bootstrap reads its arguments through the options and the role only.\<close>

lemma NewEGAwsClient_cong:
  assumes "buildConfigOpts a = buildConfigOpts b" and "AssumeRoleArn a = AssumeRoleArn b"
  shows "NewEGAwsClient env ctx a = NewEGAwsClient env ctx b"
  unfolding NewEGAwsClient_def assms by (rule refl)

text \<open>
  C10. For every negative \<^verbatim>\<open>RetryMaxAttempts\<close> bootstrap does what it does for 0, trace
  and result: the options hold no retry cap.
\<close>

theorem C10_negative_retry:
  assumes "RetryMaxAttempts args < 0"
  shows "NewEGAwsClient env ctx args = NewEGAwsClient env ctx (args\<lparr>RetryMaxAttempts := 0\<rparr>) \<and>
         retry_caps (fst (buildConfigOpts args)) = []"
proof -
  have "buildConfigOpts args = buildConfigOpts (args\<lparr>RetryMaxAttempts := 0\<rparr>)"
    using assms by (simp add: buildConfigOpts_def Let_def)
  moreover have "retry_caps (fst (buildConfigOpts args)) = []"
    using assms by (simp add: buildConfigOpts_def Let_def split: option.splits)
  ultimately show ?thesis
    by (simp add: NewEGAwsClient_cong [of args "args\<lparr>RetryMaxAttempts := 0\<rparr>"])
qed

theorem C10_witness:
  "NewEGAwsClient example_sdk 0 (example_args\<lparr>RetryMaxAttempts := - 3\<rparr>) =
     NewEGAwsClient example_sdk 0 (example_args\<lparr>RetryMaxAttempts := 0\<rparr>) \<and>
   retry_caps (fst (buildConfigOpts (example_args\<lparr>RetryMaxAttempts := - 3\<rparr>))) = []"
proof -
  have "RetryMaxAttempts (example_args\<lparr>RetryMaxAttempts := - 3\<rparr>) < 0"
    by simp
  then show ?thesis
    using C10_negative_retry [where env = example_sdk and ctx = 0
        and args = "example_args\<lparr>RetryMaxAttempts := - 3\<rparr>"]
    by simp
qed

section \<open>The provider of assumed credentials\<close>




text \<open>
  C8. The credentials provider installed after role assumption dereferences
  \<^verbatim>\<open>result.Credentials\<close> and its four fields unchecked: for every context it returns
  without a panic exactly when the answer of the identity service carries the credentials
  with all four fields non-nil, it returns their values then, and it never returns an
  error.
\<close>

theorem C8_provider_total:
  "(Retrieve (CredentialsProviderFunc result) ctx \<noteq> Panic) =
     (\<exists>c. AssumeRoleOutput.Credentials result = Some c \<and> AccessKeyId c \<noteq> None \<and>
          sts_Credentials.SecretAccessKey c \<noteq> None \<and> sts_Credentials.SessionToken c \<noteq> None \<and>
          Expiration c \<noteq> None) \<and>
   (\<forall>v e. Retrieve (CredentialsProviderFunc result) ctx \<noteq> Return (v, Some e)) \<and>
   (\<forall>c a s k x.
      AssumeRoleOutput.Credentials result = Some c \<and> AccessKeyId c = Some a \<and>
      sts_Credentials.SecretAccessKey c = Some s \<and> sts_Credentials.SessionToken c = Some k \<and>
      Expiration c = Some x \<longrightarrow>
      Retrieve (CredentialsProviderFunc result) ctx =
        Return (\<lparr>AccessKeyID = a, SecretAccessKey = s, SessionToken = k, Source = [],
                 CanExpire = False, Expires = x\<rparr>, None))"
  by (auto split: option.splits)

theorem C8_witness:
  "Retrieve (CredentialsProviderFunc example_result) 0 =
     Return (\<lparr>AccessKeyID = ''ASIA'', SecretAccessKey = ''key'', SessionToken = ''token'',
              Source = [], CanExpire = False, Expires = 3600\<rparr>, None) \<and>
   Retrieve (CredentialsProviderFunc example_result) 0 \<noteq> Panic"
proof -
  have "AssumeRoleOutput.Credentials example_result =
      Some \<lparr>AccessKeyId = Some ''ASIA'', sts_Credentials.SecretAccessKey = Some ''key'',
            sts_Credentials.SessionToken = Some ''token'', Expiration = Some 3600\<rparr>"
    by (simp add: example_result_def)
  then show ?thesis
    using C8_provider_total [where result = example_result and ctx = 0]
    by simp
qed





section \<open>Errors\<close>






end
